theory Spec2Isabelle
  imports Complex_Main "HOL-Library.Multiset"
begin

section \<open>JavaScript strings\<close>

text \<open>
  A string is the list of the bytes of its UTF-8 form (a lone surrogate in its three-byte
  form), so that an ASCII character is one \<open>char\<close> and any other character a sequence of
  two to four. The white space of JavaScript (\<open>\s\<close>, \<open>trim\<close>, the white space that
  \<open>parseInt\<close> and \<open>parseFloat\<close> skip) is the list \<open>whiteSpaceChars\<close>: tab, line feed,
  vertical tab, form feed, carriage return, space, U+00A0, U+1680, U+2000 to U+200A,
  U+2028, U+2029, U+202F, U+205F, U+3000 and U+FEFF.
\<close>

definition startsWith :: "string \<Rightarrow> string \<Rightarrow> bool" where
  "startsWith s p = (take (length p) s = p)"

definition whiteSpaceChars :: "string list" where
  "whiteSpaceChars =
     [[CHR 0x09], [CHR 0x0A], [CHR 0x0B], [CHR 0x0C], [CHR 0x0D], [CHR 0x20],
      [CHR 0xC2, CHR 0xA0], [CHR 0xE1, CHR 0x9A, CHR 0x80],
      [CHR 0xE2, CHR 0x80, CHR 0x80], [CHR 0xE2, CHR 0x80, CHR 0x81], [CHR 0xE2, CHR 0x80, CHR 0x82],
      [CHR 0xE2, CHR 0x80, CHR 0x83], [CHR 0xE2, CHR 0x80, CHR 0x84], [CHR 0xE2, CHR 0x80, CHR 0x85],
      [CHR 0xE2, CHR 0x80, CHR 0x86], [CHR 0xE2, CHR 0x80, CHR 0x87], [CHR 0xE2, CHR 0x80, CHR 0x88],
      [CHR 0xE2, CHR 0x80, CHR 0x89], [CHR 0xE2, CHR 0x80, CHR 0x8A],
      [CHR 0xE2, CHR 0x80, CHR 0xA8], [CHR 0xE2, CHR 0x80, CHR 0xA9], [CHR 0xE2, CHR 0x80, CHR 0xAF],
      [CHR 0xE2, CHR 0x81, CHR 0x9F], [CHR 0xE3, CHR 0x80, CHR 0x80], [CHR 0xEF, CHR 0xBB, CHR 0xBF]]"

text \<open>The first of the given characters that the string starts with.\<close>

definition leading :: "string list \<Rightarrow> string \<Rightarrow> string option" where
  "leading pats s = List.find (\<lambda>p. p \<noteq> [] \<and> startsWith s p) pats"

function dropLeading :: "string list \<Rightarrow> string \<Rightarrow> string" where
  "dropLeading pats s =
     (case leading pats s of None \<Rightarrow> s | Some p \<Rightarrow> dropLeading pats (drop (length p) s))"
  by pat_completeness auto
termination
proof (relation "measure (\<lambda>(pats, s). length s)")
  fix pats :: "string list" and s p :: string
  assume "leading pats s = Some p"
  then have "p \<noteq> []" and "take (length p) s = p"
    by (auto simp: leading_def startsWith_def find_Some_iff)
  then have "s \<noteq> []" by auto
  with \<open>p \<noteq> []\<close> show "((pats, drop (length p) s), (pats, s)) \<in> measure (\<lambda>(pats, s). length s)"
    by simp
qed simp

declare dropLeading.simps [simp del]

definition trimStart :: "string \<Rightarrow> string" where
  "trimStart s = dropLeading whiteSpaceChars s"

definition trimEnd :: "string \<Rightarrow> string" where
  "trimEnd s = rev (dropLeading (map rev whiteSpaceChars) (rev s))"

definition trim :: "string \<Rightarrow> string" where
  "trim s = trimEnd (trimStart s)"

text \<open>\<open>s.replace(/[...]/g, '')\<close> for a class of characters: every occurrence is removed.\<close>

function stripAll :: "string list \<Rightarrow> string \<Rightarrow> string" where
  "stripAll pats s =
     (if s = [] then []
      else (case leading pats s of
              None \<Rightarrow> hd s # stripAll pats (tl s)
            | Some p \<Rightarrow> stripAll pats (drop (length p) s)))"
  by pat_completeness auto
termination
proof (relation "measure (\<lambda>(pats, s). length s)")
  fix pats :: "string list" and s p :: string
  assume "s \<noteq> []" and "leading pats s = Some p"
  then have "p \<noteq> []" by (auto simp: leading_def find_Some_iff)
  with \<open>s \<noteq> []\<close> show "((pats, drop (length p) s), (pats, s)) \<in> measure (\<lambda>(pats, s). length s)"
    by simp
qed simp_all

declare stripAll.simps [simp del]

text \<open>
  Case mapping. \<open>toUpperCase\<close> and \<open>toLowerCase\<close> are exact on ASCII and on every other
  character whose upper-case (lower-case) form contains an ASCII character: these are the
  characters of \<open>upperSpecial\<close> (U+00DF, U+0131, U+0149, U+017F, U+01F0, U+1E96 to U+1E9A,
  U+FB00 to U+FB06) and of \<open>lowerSpecial\<close> (U+0130, U+212A). Any other character is left
  as it is; its case form, whatever it is, has no ASCII character in it, so that a
  comparison with an ASCII string and the reading of a number come out as in JavaScript.
\<close>

definition upperChar :: "char \<Rightarrow> char" where
  "upperChar c = (case map_of (zip ''abcdefghijklmnopqrstuvwxyz'' ''ABCDEFGHIJKLMNOPQRSTUVWXYZ'') c of
     Some u \<Rightarrow> u | None \<Rightarrow> c)"

definition lowerChar :: "char \<Rightarrow> char" where
  "lowerChar c = (case map_of (zip ''ABCDEFGHIJKLMNOPQRSTUVWXYZ'' ''abcdefghijklmnopqrstuvwxyz'') c of
     Some l \<Rightarrow> l | None \<Rightarrow> c)"

definition upperSpecial :: "(string \<times> string) list" where
  "upperSpecial =
     [([CHR 0xC3, CHR 0x9F], ''SS''),
      ([CHR 0xC4, CHR 0xB1], ''I''),
      ([CHR 0xC5, CHR 0x89], [CHR 0xCA, CHR 0xBC, CHR ''N'']),
      ([CHR 0xC5, CHR 0xBF], ''S''),
      ([CHR 0xC7, CHR 0xB0], [CHR ''J'', CHR 0xCC, CHR 0x8C]),
      ([CHR 0xE1, CHR 0xBA, CHR 0x96], [CHR ''H'', CHR 0xCC, CHR 0xB1]),
      ([CHR 0xE1, CHR 0xBA, CHR 0x97], [CHR ''T'', CHR 0xCC, CHR 0x88]),
      ([CHR 0xE1, CHR 0xBA, CHR 0x98], [CHR ''W'', CHR 0xCC, CHR 0x8A]),
      ([CHR 0xE1, CHR 0xBA, CHR 0x99], [CHR ''Y'', CHR 0xCC, CHR 0x8A]),
      ([CHR 0xE1, CHR 0xBA, CHR 0x9A], [CHR ''A'', CHR 0xCA, CHR 0xBE]),
      ([CHR 0xEF, CHR 0xAC, CHR 0x80], ''FF''),
      ([CHR 0xEF, CHR 0xAC, CHR 0x81], ''FI''),
      ([CHR 0xEF, CHR 0xAC, CHR 0x82], ''FL''),
      ([CHR 0xEF, CHR 0xAC, CHR 0x83], ''FFI''),
      ([CHR 0xEF, CHR 0xAC, CHR 0x84], ''FFL''),
      ([CHR 0xEF, CHR 0xAC, CHR 0x85], ''ST''),
      ([CHR 0xEF, CHR 0xAC, CHR 0x86], ''ST'')]"

definition lowerSpecial :: "(string \<times> string) list" where
  "lowerSpecial =
     [([CHR 0xC4, CHR 0xB0], [CHR ''i'', CHR 0xCC, CHR 0x87]),
      ([CHR 0xE2, CHR 0x84, CHR 0xAA], ''k'')]"

function mapCase :: "(string \<times> string) list \<Rightarrow> (char \<Rightarrow> char) \<Rightarrow> string \<Rightarrow> string" where
  "mapCase special f s =
     (if s = [] then []
      else (case List.find (\<lambda>kv. fst kv \<noteq> [] \<and> startsWith s (fst kv)) special of
              None \<Rightarrow> f (hd s) # mapCase special f (tl s)
            | Some kv \<Rightarrow> snd kv @ mapCase special f (drop (length (fst kv)) s)))"
  by pat_completeness auto
termination
proof (relation "measure (\<lambda>(special, f, s). length s)")
  fix special :: "(string \<times> string) list" and f :: "char \<Rightarrow> char" and s :: string and kv
  assume "s \<noteq> []" and "List.find (\<lambda>kv. fst kv \<noteq> [] \<and> startsWith s (fst kv)) special = Some kv"
  then have "fst kv \<noteq> []" by (auto simp: find_Some_iff)
  with \<open>s \<noteq> []\<close>
  show "((special, f, drop (length (fst kv)) s), (special, f, s)) \<in> measure (\<lambda>(special, f, s). length s)"
    by simp
qed simp_all

declare mapCase.simps [simp del]

definition toUpperCase :: "string \<Rightarrow> string" where
  "toUpperCase s = mapCase upperSpecial upperChar s"

definition toLowerCase :: "string \<Rightarrow> string" where
  "toLowerCase s = mapCase lowerSpecial lowerChar s"

text \<open>
  Lengths and positions count UTF-16 code units: a character of four bytes is two code
  units, any other character one. \<open>substring(0, n)\<close> can end between the two, and then
  ends with the high surrogate alone.
\<close>

definition byte :: "char \<Rightarrow> nat" where
  "byte c = of_char c"

definition utf16Length :: "string \<Rightarrow> nat" where
  "utf16Length s = length (filter (\<lambda>c. byte c < 0x80 \<or> 0xC0 \<le> byte c) s)
                   + length (filter (\<lambda>c. 0xF0 \<le> byte c) s)"

definition highSurrogate :: "string \<Rightarrow> string" where
  "highSurrogate bs =
     (let cp = (byte (bs ! 0) mod 8) * 262144 + (byte (bs ! 1) mod 64) * 4096
               + (byte (bs ! 2) mod 64) * 64 + byte (bs ! 3) mod 64;
          hs = 0xD800 + (cp - 0x10000) div 1024
      in [CHR 0xED, char_of (0x80 + (hs div 64) mod 64), char_of (0x80 + hs mod 64)])"

function substring0 :: "nat \<Rightarrow> string \<Rightarrow> string" where
  "substring0 n s =
     (if n = 0 \<or> s = [] then []
      else if 0xF0 \<le> byte (hd s) then
        (if n = 1 then highSurrogate (take 4 s) else take 4 s @ substring0 (n - 2) (drop 4 s))
      else (let k = (if byte (hd s) < 0xC0 then 1 else if byte (hd s) < 0xE0 then 2 else 3)
            in take k s @ substring0 (n - 1) (drop k s)))"
  by pat_completeness auto
termination
  by (relation "measure (\<lambda>(n, s). length s)") auto

declare substring0.simps [simp del]

text \<open>\<open>s.split(sep)\<close> for a one-character separator: the empty string gives \<open>['''']\<close>.\<close>

fun split :: "char \<Rightarrow> string \<Rightarrow> string list" where
  "split sep [] = [[]]"
| "split sep (c # cs) =
     (if c = sep then [] # split sep cs
      else (case split sep cs of w # ws \<Rightarrow> (c # w) # ws | [] \<Rightarrow> [[c]]))"

definition padStart :: "nat \<Rightarrow> char \<Rightarrow> string \<Rightarrow> string" where
  "padStart n c s = replicate (n - length s) c @ s"

definition isDigit :: "char \<Rightarrow> bool" where
  "isDigit c = (c \<in> set ''0123456789'')"

definition digitVal :: "char \<Rightarrow> nat" where
  "digitVal c = (case map_of (zip ''0123456789'' [0, 1, 2, 3, 4, 5, 6, 7, 8, 9]) c of
     Some d \<Rightarrow> d | None \<Rightarrow> 0)"

definition digitsToNat :: "string \<Rightarrow> nat" where
  "digitsToNat ds = foldl (\<lambda>a c. 10 * a + digitVal c) 0 ds"

definition digitChar :: "nat \<Rightarrow> char" where
  "digitChar d = ''0123456789abcdef'' ! d"

fun natToString :: "nat \<Rightarrow> string" where
  "natToString n = (if n < 10 then [digitChar n] else natToString (n div 10) @ [digitChar (n mod 10)])"

declare natToString.simps [simp del]

section \<open>JavaScript numbers\<close>

text \<open>
  A number is an IEEE 754 binary64 value: a finite one is given by the rational it denotes,
  and every arithmetic result is rounded to the nearest binary64 value, ties to even
  (\<open>fl\<close>). The two zeros are one value.
\<close>

datatype jsnum = Fin rat | PosInf | NegInf | NaN

datatype jsval = Undefined | Null | Str string | Num jsnum

fun bitlen :: "nat \<Rightarrow> nat" where
  "bitlen n = (if n = 0 then 0 else Suc (bitlen (n div 2)))"

declare bitlen.simps [simp del]

definition pow2 :: "int \<Rightarrow> rat" where
  "pow2 e = (if 0 \<le> e then 2 ^ nat e else 1 / 2 ^ nat (- e))"

text \<open>For \<open>0 < x\<close>, the exponent \<open>e\<close> with \<open>2^e \<le> x < 2^(e+1)\<close>.\<close>

definition floor_log2 :: "rat \<Rightarrow> int" where
  "floor_log2 x = (if 1 \<le> x then int (bitlen (nat \<lfloor>x\<rfloor>)) - 1
                   else - int (bitlen (nat (\<lceil>1 / x\<rceil> - 1))))"

definition round_half_even :: "rat \<Rightarrow> int" where
  "round_half_even x =
     (let f = \<lfloor>x\<rfloor>; d = x - of_int f
      in if d < 1 / 2 then f else if 1 / 2 < d then f + 1 else if even f then f else f + 1)"

text \<open>
  Rounding to binary64: 53 significant bits, the least exponent \<open>-1022\<close> (below it the
  spacing stays \<open>2^-1074\<close>), and overflow to an infinity from \<open>2^1024\<close> on.
\<close>

definition fl :: "rat \<Rightarrow> jsnum" where
  "fl x = (if x = 0 then Fin 0 else
     let e = max (floor_log2 \<bar>x\<bar>) (- 1022);
         ulp = pow2 (e - 52);
         r = of_int (round_half_even (x / ulp)) * ulp
     in if 1024 \<le> floor_log2 \<bar>r\<bar> then (if 0 < r then PosInf else NegInf) else Fin r)"

definition jadd :: "jsnum \<Rightarrow> jsnum \<Rightarrow> jsnum" where
  "jadd a b = (case (a, b) of
      (Fin x, Fin y) \<Rightarrow> fl (x + y)
    | (NaN, _) \<Rightarrow> NaN | (_, NaN) \<Rightarrow> NaN
    | (PosInf, NegInf) \<Rightarrow> NaN | (NegInf, PosInf) \<Rightarrow> NaN
    | (PosInf, _) \<Rightarrow> PosInf | (_, PosInf) \<Rightarrow> PosInf
    | (NegInf, _) \<Rightarrow> NegInf | (_, NegInf) \<Rightarrow> NegInf)"

definition jneg :: "jsnum \<Rightarrow> jsnum" where
  "jneg a = (case a of Fin x \<Rightarrow> Fin (- x) | PosInf \<Rightarrow> NegInf | NegInf \<Rightarrow> PosInf | NaN \<Rightarrow> NaN)"

definition jsub :: "jsnum \<Rightarrow> jsnum \<Rightarrow> jsnum" where
  "jsub a b = jadd a (jneg b)"

text \<open>\<open>a < b\<close>; false as soon as one side is \<open>NaN\<close>.\<close>

definition jless :: "jsnum \<Rightarrow> jsnum \<Rightarrow> bool" where
  "jless a b = (case (a, b) of
      (NaN, _) \<Rightarrow> False | (_, NaN) \<Rightarrow> False
    | (Fin x, Fin y) \<Rightarrow> x < y
    | (_, NegInf) \<Rightarrow> False | (PosInf, _) \<Rightarrow> False
    | (NegInf, _) \<Rightarrow> True | (_, PosInf) \<Rightarrow> True)"

definition jle :: "jsnum \<Rightarrow> jsnum \<Rightarrow> bool" where
  "jle a b = (a \<noteq> NaN \<and> b \<noteq> NaN \<and> (a = b \<or> jless a b))"

text \<open>Division by a finite, positive constant.\<close>

definition jdivc :: "jsnum \<Rightarrow> rat \<Rightarrow> jsnum" where
  "jdivc a k = (case a of Fin x \<Rightarrow> fl (x / k) | _ \<Rightarrow> a)"

text \<open>
  \<open>parseFloat(s)\<close>: after leading white space, the longest prefix that is a decimal
  literal (a sign, then \<open>Infinity\<close>, or digits with an optional fraction, or a fraction
  alone, then an optional exponent) is read and rounded; \<open>NaN\<close> when there is none.
\<close>

definition exponentPart :: "string \<Rightarrow> int" where
  "exponentPart r =
     (if r \<noteq> [] \<and> (hd r = CHR ''e'' \<or> hd r = CHR ''E'') then
        (let r1 = tl r;
             neg = (r1 \<noteq> [] \<and> hd r1 = CHR ''-'');
             r2 = (if r1 \<noteq> [] \<and> (hd r1 = CHR ''-'' \<or> hd r1 = CHR ''+'') then tl r1 else r1);
             ds = takeWhile isDigit r2
         in if ds = [] then 0 else if neg then - int (digitsToNat ds) else int (digitsToNat ds))
      else 0)"

definition pow10 :: "int \<Rightarrow> rat" where
  "pow10 e = (if 0 \<le> e then 10 ^ nat e else 1 / 10 ^ nat (- e))"

definition parseFloat :: "string \<Rightarrow> jsnum" where
  "parseFloat s =
     (let t = trimStart s;
          neg = (t \<noteq> [] \<and> hd t = CHR ''-'');
          u = (if t \<noteq> [] \<and> (hd t = CHR ''-'' \<or> hd t = CHR ''+'') then tl t else t)
      in if startsWith u ''Infinity'' then (if neg then NegInf else PosInf)
         else
           (let ip = takeWhile isDigit u;
                r1 = dropWhile isDigit u;
                hasDot = (r1 \<noteq> [] \<and> hd r1 = CHR ''.'');
                fp = (if hasDot then takeWhile isDigit (tl r1) else []);
                r2 = (if hasDot then dropWhile isDigit (tl r1) else r1)
            in if ip = [] \<and> fp = [] then NaN
               else
                 (let mv = of_nat (digitsToNat (ip @ fp)) * pow10 (exponentPart r2 - int (length fp))
                  in fl (if neg then - mv else mv))))"

text \<open>
  The shortest decimal digits that read back as a given double, here a positive integer
  \<open>x\<close> of \<open>nd\<close> decimal digits: the least \<open>k\<close> such that some \<open>s\<close> of \<open>k\<close> digits and
  some \<open>e\<close> have \<open>s * 10^e\<close> rounding to \<open>x\<close>; of two such \<open>s\<close> the one nearer to \<open>x\<close>.
\<close>

definition digitsCandidates :: "nat \<Rightarrow> nat \<Rightarrow> nat \<Rightarrow> (nat \<times> nat) list" where
  "digitsCandidates x nd k =
     (let e = nd - k;
          s0 = x div 10 ^ e;
          lo = (s0, e);
          hi = (if s0 + 1 = 10 ^ k then (10 ^ (k - 1), e + 1) else (s0 + 1, e))
      in filter (\<lambda>(s, e). fl (of_nat (s * 10 ^ e)) = Fin (of_nat x)) [lo, hi])"

function shortestDigits :: "nat \<Rightarrow> nat \<Rightarrow> nat \<Rightarrow> nat \<times> nat" where
  "shortestDigits x nd k =
     (if nd \<le> k then (x, 0)
      else (case digitsCandidates x nd k of
              [] \<Rightarrow> shortestDigits x nd (Suc k)
            | [c] \<Rightarrow> c
            | (s1, e1) # (s2, e2) # _ \<Rightarrow>
                (let d1 = int x - int (s1 * 10 ^ e1); d2 = int (s2 * 10 ^ e2) - int x
                 in if d1 < d2 then (s1, e1) else if d2 < d1 then (s2, e2)
                    else if even s1 then (s1, e1) else (s2, e2))))"
  by pat_completeness auto
termination
  by (relation "measure (\<lambda>(x, nd, k). nd - k)") auto

declare shortestDigits.simps [simp del]

text \<open>\<open>x.toString()\<close> for a double \<open>x\<close> that is a natural number.\<close>

definition numberToString :: "nat \<Rightarrow> string" where
  "numberToString x =
     (if x = 0 then ''0''
      else (let (s, e) = shortestDigits x (length (natToString x)) 1;
                ds = natToString s;
                k = length ds;
                n = k + e
            in if n \<le> 21 then ds @ replicate e (CHR ''0'')
               else if k = 1 then ds @ ''e+'' @ natToString (n - 1)
               else hd ds # CHR ''.'' # tl ds @ ''e+'' @ natToString (n - 1)))"

text \<open>
  \<open>parseInt(s, 10)\<close>: leading white space and one sign are skipped and the longest run of
  decimal digits is read; \<open>NaN\<close> when there is no digit.
\<close>

definition parseInt :: "string \<Rightarrow> jsnum" where
  "parseInt s =
     (let t = trimStart s;
          neg = (t \<noteq> [] \<and> hd t = CHR ''-'');
          u = (if t \<noteq> [] \<and> (hd t = CHR ''-'' \<or> hd t = CHR ''+'') then tl t else t);
          ds = takeWhile isDigit u
      in if ds = [] then NaN
         else fl (if neg then - of_nat (digitsToNat ds) else of_nat (digitsToNat ds)))"

text \<open>\<open>x.toString()\<close> for a number whose value is an integer, as \<open>parseInt\<close> returns.\<close>

definition integerToString :: "jsnum \<Rightarrow> string" where
  "integerToString x =
     (case x of
        NaN \<Rightarrow> ''NaN''
      | PosInf \<Rightarrow> ''Infinity''
      | NegInf \<Rightarrow> ''-Infinity''
      | Fin q \<Rightarrow> (if q < 0 then ''-'' else []) @ numberToString (nat \<lfloor>\<bar>q\<bar>\<rfloor>))"

datatype error = TypeError | RangeError | OverflowError | ValueError

text \<open>
  The digits of \<open>n / 10^f\<close> with \<open>f\<close> decimal places, for \<open>toFixed\<close>: the digits of \<open>n\<close>,
  padded with zeros to \<open>f + 1\<close> digits, with the point before the last \<open>f\<close>.
\<close>

definition fixedDigits :: "nat \<Rightarrow> nat \<Rightarrow> string" where
  "fixedDigits n f =
     (let m = natToString n;
          m1 = padStart (f + 1) (CHR ''0'') m;
          k = length m1
      in if f = 0 then m else take (k - f) m1 @ ''.'' @ drop (k - f) m1)"

text \<open>\<open>x.toFixed(f)\<close>.\<close>

definition toFixed :: "jsnum \<Rightarrow> int \<Rightarrow> error + string" where
  "toFixed x f =
     (if f < 0 \<or> 100 < f then Inl RangeError
      else (case x of
              NaN \<Rightarrow> Inr ''NaN''
            | PosInf \<Rightarrow> Inr ''Infinity''
            | NegInf \<Rightarrow> Inr ''-Infinity''
            | Fin q \<Rightarrow>
                (let sgn = (if q < 0 then ''-'' else []);
                     a = \<bar>q\<bar>
                 in if 10 ^ 21 \<le> a then Inr (sgn @ numberToString (nat \<lfloor>a\<rfloor>))
                    else Inr (sgn @ fixedDigits (nat \<lfloor>a * 10 ^ nat f + 1 / 2\<rfloor>) (nat f)))))"

text \<open>Digits in groups of three, separated by commas.\<close>

fun group3 :: "string \<Rightarrow> string" where
  "group3 ds = (if length ds \<le> 3 then ds
                else group3 (take (length ds - 3) ds) @ '','' @ drop (length ds - 3) ds)"

declare group3.simps [simp del]

text \<open>The decimal digits, without an exponent, of a double that is a natural number.\<close>

definition decimalDigits :: "nat \<Rightarrow> string" where
  "decimalDigits n =
     (if n = 0 then ''0''
      else (let (s, e) = shortestDigits n (length (natToString n)) 1
            in natToString s @ replicate e (CHR ''0'')))"

text \<open>
  \<open>x.toLocaleString('en-US', {minimumFractionDigits: 0, maximumFractionDigits: 0})\<close>:
  rounded to an integer, a tie away from zero, then grouped. The infinity sign is the
  three bytes of its UTF-8 form.
\<close>

definition toLocaleString0 :: "jsnum \<Rightarrow> string" where
  "toLocaleString0 x =
     (case x of
        NaN \<Rightarrow> ''NaN''
      | PosInf \<Rightarrow> [CHR 0xE2, CHR 0x88, CHR 0x9E]
      | NegInf \<Rightarrow> CHR ''-'' # [CHR 0xE2, CHR 0x88, CHR 0x9E]
      | Fin q \<Rightarrow>
          (if q < 0 then ''-'' else []) @ group3 (decimalDigits (nat \<lfloor>\<bar>q\<bar> + 1 / 2\<rfloor>)))"

section \<open>constants.js\<close>

definition STATE_FIPS_MAP :: "(string \<times> string) list" where
  "STATE_FIPS_MAP =
    [(''AL'', ''01''), (''AK'', ''02''), (''AZ'', ''04''), (''AR'', ''05''), (''CA'', ''06''), (''CO'', ''08''),
     (''CT'', ''09''), (''DE'', ''10''), (''DC'', ''11''), (''FL'', ''12''), (''GA'', ''13''), (''HI'', ''15''),
     (''ID'', ''16''), (''IL'', ''17''), (''IN'', ''18''), (''IA'', ''19''), (''KS'', ''20''), (''KY'', ''21''),
     (''LA'', ''22''), (''ME'', ''23''), (''MD'', ''24''), (''MA'', ''25''), (''MI'', ''26''), (''MN'', ''27''),
     (''MS'', ''28''), (''MO'', ''29''), (''MT'', ''30''), (''NE'', ''31''), (''NV'', ''32''), (''NH'', ''33''),
     (''NJ'', ''34''), (''NM'', ''35''), (''NY'', ''36''), (''NC'', ''37''), (''ND'', ''38''), (''OH'', ''39''),
     (''OK'', ''40''), (''OR'', ''41''), (''PA'', ''42''), (''RI'', ''44''), (''SC'', ''45''), (''SD'', ''46''),
     (''TN'', ''47''), (''TX'', ''48''), (''UT'', ''49''), (''VT'', ''50''), (''VA'', ''51''), (''WA'', ''53''),
     (''WV'', ''54''), (''WI'', ''55''), (''WY'', ''56''), (''AS'', ''60''), (''GU'', ''66''), (''MP'', ''69''),
     (''PR'', ''72''), (''VI'', ''78'')]"

section \<open>utils.js\<close>

text \<open>
  \<open>getGeoidFromDistrict\<close>. The lookup key is upper case, so it is never a name that an
  object literal inherits; \<open>None\<close> is \<open>null\<close>.
\<close>

definition getGeoidFromDistrict :: "jsval \<Rightarrow> string option" where
  "getGeoidFromDistrict v = (case v of
     Str districtStr \<Rightarrow>
       if districtStr = [] \<or> CHR ''-'' \<notin> set districtStr then None
       else (let parts = split (CHR ''-'') districtStr in
         if length parts \<noteq> 2 then None
         else (let stateAbbr = toUpperCase (parts ! 0);
                   districtNum = toUpperCase (parts ! 1)
               in case map_of STATE_FIPS_MAP stateAbbr of
                    None \<Rightarrow> None
                  | Some stateFips \<Rightarrow>
                      if districtNum = ''ZZ'' \<or> districtNum = ''00'' then Some (stateFips @ districtNum)
                      else (let parsed = parseInt districtNum
                            in if parsed = NaN then None
                               else Some (stateFips @ padStart 2 (CHR ''0'') (integerToString parsed)))))
   | _ \<Rightarrow> None)"

text \<open>\<open>parseCSVLine\<close>: the loop over the characters, with the one-character look-ahead.\<close>

fun parseCSVLine_loop :: "string \<Rightarrow> string list \<Rightarrow> string \<Rightarrow> bool \<Rightarrow> string list" where
  "parseCSVLine_loop [] result current inQuotes = result @ [current]"
| "parseCSVLine_loop (c # rest) result current inQuotes =
     (if c = CHR 0x22 then
        (if inQuotes \<and> rest \<noteq> [] \<and> hd rest = CHR 0x22
         then parseCSVLine_loop (tl rest) result (current @ [CHR 0x22]) inQuotes
         else parseCSVLine_loop rest result current (\<not> inQuotes))
      else if c = CHR '','' \<and> \<not> inQuotes
        then parseCSVLine_loop rest (result @ [current]) [] inQuotes
      else parseCSVLine_loop rest result (current @ [c]) inQuotes)"

definition parseCSVLine :: "string \<Rightarrow> string list" where
  "parseCSVLine line = parseCSVLine_loop line [] [] False"

text \<open>
  A row object: the assignment \<open>row[name] = v\<close> creates or overwrites the property, except
  for the name \<open>__proto__\<close>, where assigning a string changes nothing.
\<close>

type_synonym csvRow = "string \<rightharpoonup> string"

definition setField :: "string list \<Rightarrow> csvRow \<Rightarrow> string \<times> nat \<Rightarrow> csvRow" where
  "setField values row hi =
     (let name = trim (fst hi);
          v = (if snd hi < length values then trim (values ! snd hi) else [])
      in if name = ''__proto__'' then row else row(name \<mapsto> v))"

definition mkRow :: "string list \<Rightarrow> string list \<Rightarrow> csvRow" where
  "mkRow headers values = foldl (setField values) Map.empty (zip headers [0..<length headers])"

definition parseCSV :: "string \<Rightarrow> csvRow list" where
  "parseCSV csvText =
     (let lines = split (CHR 0x0A) (trim csvText);
          headers = parseCSVLine (hd lines)
      in map (\<lambda>l. mkRow headers (parseCSVLine (trim l)))
             (filter (\<lambda>l. trim l \<noteq> []) (tl lines)))"

text \<open>\<open>parseCurrency\<close>; \<open>None\<close> is \<open>null\<close>. The argument is a string, a number or absent.\<close>

definition cleanCurrency :: "string \<Rightarrow> string" where
  "cleanCurrency s = stripAll (''$'' # '','' # whiteSpaceChars) s"

definition parseCurrency :: "jsval \<Rightarrow> jsnum option" where
  "parseCurrency v = (case v of
      Null \<Rightarrow> None
    | Undefined \<Rightarrow> None
    | Num n \<Rightarrow> (if n = NaN then None else Some n)
    | Str s \<Rightarrow>
        if s = [] then None
        else (let num = parseFloat (cleanCurrency s) in if num = NaN then None else Some num))"

text \<open>\<open>formatCurrency(value, abbreviated, decimals)\<close>.\<close>

definition dollars :: "string \<Rightarrow> error + string \<Rightarrow> error + string" where
  "dollars suffix r = (case r of Inl e \<Rightarrow> Inl e | Inr s \<Rightarrow> Inr (''$'' @ s @ suffix))"

definition formatCurrency :: "jsval \<Rightarrow> bool \<Rightarrow> int \<Rightarrow> error + string" where
  "formatCurrency v abbreviated decimals =
     (let num = (case v of
                   Str s \<Rightarrow> (case parseCurrency v of None \<Rightarrow> Null | Some n \<Rightarrow> Num n)
                 | _ \<Rightarrow> v)
      in case num of
           Num n \<Rightarrow>
             if n = NaN \<or> jless n (Fin 0) then Inr ''N/A''
             else if n = Fin 0 then Inr ''$0''
             else if abbreviated then
               (if jle (Fin 1000000000) n then dollars ''B'' (toFixed (jdivc n 1000000000) decimals)
                else if jle (Fin 1000000) n then dollars ''M'' (toFixed (jdivc n 1000000) decimals)
                else if jle (Fin 1000) n then dollars ''K'' (toFixed (jdivc n 1000) decimals)
                else dollars [] (toFixed n 0))
             else Inr (''$'' @ toLocaleString0 n)
         | _ \<Rightarrow> Inr ''N/A'')"

text \<open>
  A plain object that starts as \<open>{}\<close> and is filled by assignments is the list of its own
  properties in creation order. It inherits the properties of \<open>Object.prototype\<close>, and
  \<open>Object.entries\<close> lists the keys that are array indices first, in ascending order,
  then the other keys in creation order.
\<close>

definition objectPrototypeNames :: "string list" where
  "objectPrototypeNames =
     [''constructor'', ''__defineGetter__'', ''__defineSetter__'', ''hasOwnProperty'',
      ''__lookupGetter__'', ''__lookupSetter__'', ''isPrototypeOf'', ''propertyIsEnumerable'',
      ''toString'', ''valueOf'', ''__proto__'', ''toLocaleString'']"

definition isArrayIndex :: "string \<Rightarrow> bool" where
  "isArrayIndex k = (k \<noteq> [] \<and> list_all isDigit k \<and> natToString (digitsToNat k) = k
                      \<and> digitsToNat k < 4294967295)"

definition objectEntries :: "(string \<times> 'v) list \<Rightarrow> (string \<times> 'v) list" where
  "objectEntries obj =
     sort_key (\<lambda>kv. digitsToNat (fst kv)) (filter (\<lambda>kv. isArrayIndex (fst kv)) obj)
     @ filter (\<lambda>kv. \<not> isArrayIndex (fst kv)) obj"

text \<open>Exceptions pass through a sequence of steps.\<close>

definition bindE :: "error + 'a \<Rightarrow> ('a \<Rightarrow> error + 'b) \<Rightarrow> error + 'b" where
  "bindE m f = (case m of Inl e \<Rightarrow> Inl e | Inr x \<Rightarrow> f x)"

fun mapE :: "('a \<Rightarrow> error + 'b) \<Rightarrow> 'a list \<Rightarrow> error + 'b list" where
  "mapE f [] = Inr []"
| "mapE f (x # xs) = bindE (f x) (\<lambda>y. bindE (mapE f xs) (\<lambda>ys. Inr (y # ys)))"

fun foldE :: "('s \<Rightarrow> 'a \<Rightarrow> error + 's) \<Rightarrow> 's \<Rightarrow> 'a list \<Rightarrow> error + 's" where
  "foldE f s [] = Inr s"
| "foldE f s (x # xs) = bindE (f s x) (\<lambda>s'. foldE f s' xs)"

text \<open>
  \<open>groupBy(array, key)\<close>, with the key of an item given as a function. When the key is a
  name that \<open>{}\<close> inherits, \<open>result[groupKey]\<close> is an inherited value without \<open>push\<close>
  and the call throws a \<open>TypeError\<close>.
\<close>

fun groupBy_loop :: "('a \<Rightarrow> string) \<Rightarrow> 'a list \<Rightarrow> (string \<times> 'a list) list
    \<Rightarrow> error + (string \<times> 'a list) list" where
  "groupBy_loop key [] result = Inr result"
| "groupBy_loop key (item # rest) result =
     (let groupKey = key item
      in if groupKey \<in> set objectPrototypeNames then Inl TypeError
         else (case map_of result groupKey of
                 None \<Rightarrow> groupBy_loop key rest (result @ [(groupKey, [item])])
               | Some g \<Rightarrow>
                   groupBy_loop key rest
                     (map (\<lambda>kv. if fst kv = groupKey then (fst kv, snd kv @ [item]) else kv) result)))"

definition groupBy :: "'a list \<Rightarrow> ('a \<Rightarrow> string) \<Rightarrow> error + (string \<times> 'a list) list" where
  "groupBy array key = groupBy_loop key array []"

text \<open>
  \<open>sumBy(array, key)\<close> on the values \<open>item[key]\<close>, each a number or \<open>null\<close>:
  \<open>value || 0\<close> turns \<open>null\<close>, \<open>NaN\<close> and zero into zero.
\<close>

definition orZero :: "jsnum option \<Rightarrow> jsnum" where
  "orZero v = (case v of None \<Rightarrow> Fin 0 | Some n \<Rightarrow> if n = NaN \<or> n = Fin 0 then Fin 0 else n)"

definition sumBy :: "jsnum option list \<Rightarrow> jsnum" where
  "sumBy values = foldl (\<lambda>sum v. jadd sum (orZero v)) (Fin 0) values"

text \<open>
  \<open>array.sort(compare)\<close>: a stable sort; \<open>compare(a, b) > 0\<close> puts \<open>a\<close> after \<open>b\<close>, and
  a \<open>NaN\<close> from \<open>compare\<close> counts as zero.
\<close>

fun insort_cmp :: "('a \<Rightarrow> 'a \<Rightarrow> jsnum) \<Rightarrow> 'a \<Rightarrow> 'a list \<Rightarrow> 'a list" where
  "insort_cmp cmp x [] = [x]"
| "insort_cmp cmp x (y # ys) =
     (if jless (Fin 0) (cmp x y) then y # insort_cmp cmp x ys else x # y # ys)"

definition js_sort :: "('a \<Rightarrow> 'a \<Rightarrow> jsnum) \<Rightarrow> 'a list \<Rightarrow> 'a list" where
  "js_sort cmp xs = foldr (insort_cmp cmp) xs []"

fun join :: "string \<Rightarrow> string list \<Rightarrow> string" where
  "join sep [] = []"
| "join sep [x] = x"
| "join sep (x # y # ys) = x @ sep @ join sep (y # ys)"

section \<open>The cancellations dashboard (app.js)\<close>

record cleanedRow =
  row :: csvRow
  totalObligations :: "jsnum option"
  totalOutlays :: "jsnum option"
  geoid :: "string option"

text \<open>The method \<open>parseCurrency\<close> of the class, on a field of a row (\<open>None\<close>: no such column).\<close>

definition app_parseCurrency :: "string option \<Rightarrow> jsnum option" where
  "app_parseCurrency v = (case v of
      None \<Rightarrow> None
    | Some s \<Rightarrow>
        if s = [] then None
        else (let num = parseFloat (cleanCurrency s) in if num = NaN then None else Some num))"

definition fieldValue :: "string option \<Rightarrow> jsval" where
  "fieldValue v = (case v of None \<Rightarrow> Undefined | Some s \<Rightarrow> Str s)"

definition isTotalRow :: "csvRow \<Rightarrow> bool" where
  "isTotalRow r =
     (toLowerCase (case r ''Nominal End Date'' of None \<Rightarrow> [] | Some endDate \<Rightarrow> endDate) = ''total'')"

definition cleanRow :: "csvRow \<Rightarrow> cleanedRow" where
  "cleanRow r =
     \<lparr>row = r,
      totalObligations = app_parseCurrency (r ''Total Obligations''),
      totalOutlays = app_parseCurrency (r ''Total Outlays''),
      geoid = getGeoidFromDistrict (fieldValue (r ''District''))\<rparr>"

definition processData :: "csvRow list \<Rightarrow> cleanedRow list" where
  "processData rawData =
     filter (\<lambda>r. totalObligations r \<noteq> None)
       (map cleanRow (filter (\<lambda>r. \<not> isTotalRow r) rawData))"

text \<open>A field of a row in a template string or as a property key.\<close>

definition fieldText :: "csvRow \<Rightarrow> string \<Rightarrow> string" where
  "fieldText r k = (case r k of None \<Rightarrow> ''undefined'' | Some s \<Rightarrow> s)"

definition numberValue :: "jsnum option \<Rightarrow> jsval" where
  "numberValue v = (case v of None \<Rightarrow> Null | Some n \<Rightarrow> Num n)"

record districtData =
  districtCounts :: "string \<rightharpoonup> nat"
  hoverInfo :: "string \<rightharpoonup> string"
  maxContracts :: nat

definition hoverLine :: "cleanedRow \<Rightarrow> error + string" where
  "hoverLine contract =
     bindE (formatCurrency (numberValue (totalObligations contract)) False 1)
       (\<lambda>amt. Inr (''<b>'' @ fieldText (row contract) ''Recipient'' @ ''</b><br>'' @ amt
                    @ '' (Award ID: '' @ fieldText (row contract) ''Award ID'' @ '')''))"

definition districtStep :: "districtData \<Rightarrow> string \<times> cleanedRow list \<Rightarrow> error + districtData" where
  "districtStep d gc =
     (let count = length (snd gc);
          header = ''<b>Number of awards: '' @ natToString count @ ''</b>''
      in bindE (mapE hoverLine (snd gc))
           (\<lambda>lines. Inr \<lparr>districtCounts = (districtCounts d)(fst gc \<mapsto> count),
                          hoverInfo = (hoverInfo d)(fst gc \<mapsto> header @ ''<br><br>'' @ join ''<br>'' lines),
                          maxContracts = (if maxContracts d < count then count else maxContracts d)\<rparr>))"

definition geoidKey :: "cleanedRow \<Rightarrow> string" where
  "geoidKey r = (case geoid r of None \<Rightarrow> ''null'' | Some g \<Rightarrow> g)"

definition calculateDistrictData :: "cleanedRow list \<Rightarrow> error + districtData" where
  "calculateDistrictData cleanedData =
     bindE (groupBy (filter (\<lambda>r. geoid r \<noteq> None \<and> geoid r \<noteq> Some []) cleanedData) geoidKey)
       (\<lambda>districtGroups.
          foldE districtStep
            \<lparr>districtCounts = Map.empty, hoverInfo = Map.empty, maxContracts = 1\<rparr>
            (objectEntries districtGroups))"

record districtEntry =
  district :: string
  contractCount :: nat
  rawObligations :: jsnum
  obligationsText :: string

definition districtEntryOf :: "string \<times> cleanedRow list \<Rightarrow> error + districtEntry" where
  "districtEntryOf gc =
     (let rawTotal = sumBy (map totalObligations (snd gc))
      in bindE (formatCurrency (Num rawTotal) False 1)
           (\<lambda>txt. Inr \<lparr>district = fst gc, contractCount = length (snd gc),
                        rawObligations = rawTotal, obligationsText = txt\<rparr>))"

text \<open>The district summary before it is sorted, then the rows as they are shown.\<close>

definition districtSummary :: "cleanedRow list \<Rightarrow> error + districtEntry list" where
  "districtSummary cleanedData =
     bindE (groupBy cleanedData (\<lambda>r. fieldText (row r) ''District''))
       (\<lambda>districtGroups. mapE districtEntryOf (objectEntries districtGroups))"

definition renderDistrictsTable :: "cleanedRow list \<Rightarrow> error + (string \<times> nat \<times> string) list" where
  "renderDistrictsTable cleanedData =
     bindE (districtSummary cleanedData)
       (\<lambda>districtData.
          Inr (map (\<lambda>r. (district r, contractCount r, obligationsText r))
                 (js_sort (\<lambda>a b. jsub (rawObligations b) (rawObligations a)) districtData)))"

record recipientEntry =
  recipient :: string
  recipientCount :: nat
  recipientText :: string

definition recipientEntryOf :: "string \<times> cleanedRow list \<Rightarrow> error + recipientEntry" where
  "recipientEntryOf gc =
     bindE (formatCurrency (Num (sumBy (map totalObligations (snd gc)))) False 1)
       (\<lambda>txt. Inr \<lparr>recipient = fst gc, recipientCount = length (snd gc), recipientText = txt\<rparr>)"

definition recipientSummary :: "cleanedRow list \<Rightarrow> error + recipientEntry list" where
  "recipientSummary cleanedData =
     bindE (groupBy cleanedData (\<lambda>r. fieldText (row r) ''Recipient''))
       (\<lambda>recipientGroups. mapE recipientEntryOf (objectEntries recipientGroups))"

definition renderRecipientsTable :: "cleanedRow list \<Rightarrow> error + (string \<times> nat \<times> string) list" where
  "renderRecipientsTable cleanedData =
     bindE (recipientSummary cleanedData)
       (\<lambda>recipientData.
          Inr (map (\<lambda>r. (recipient r, recipientCount r, recipientText r))
                 (js_sort (\<lambda>a b. jsub (Fin (of_nat (recipientCount b))) (Fin (of_nat (recipientCount a))))
                    recipientData)))"

text \<open>\<open>truncateText\<close> of the class; \<open>lastIndexOf\<close> gives \<open>-1\<close> when there is no space.\<close>

definition lastIndexOf :: "char \<Rightarrow> string \<Rightarrow> int" where
  "lastIndexOf c s =
     (if c \<in> set s
      then int (utf16Length (rev (tl (dropWhile (\<lambda>x. x \<noteq> c) (rev s)))))
      else - 1)"

definition truncateText :: "string option \<Rightarrow> nat \<Rightarrow> string option" where
  "truncateText text maxLength = (case text of
      None \<Rightarrow> None
    | Some t \<Rightarrow>
        if t = [] \<or> utf16Length t \<le> maxLength then Some t
        else (let truncated = substring0 maxLength t;
                  lastSpace = lastIndexOf (CHR '' '') truncated;
                  cutPoint = (if 0 < lastSpace then nat lastSpace else maxLength)
              in Some (substring0 cutPoint t @ ''...'')))"

definition contractCells :: "cleanedRow \<Rightarrow> error + string option list" where
  "contractCells r =
     bindE (formatCurrency (numberValue (totalObligations r)) False 1)
       (\<lambda>obl. bindE (formatCurrency (numberValue (totalOutlays r)) False 1)
          (\<lambda>out. Inr [row r ''Award ID'', row r ''Source'', row r ''District'', row r ''Recipient'',
                       row r ''Start Date'', row r ''Nominal End Date'', Some obl, Some out,
                       truncateText (row r ''Description'') 200, row r ''URL'']))"

definition renderContractsTable :: "cleanedRow list \<Rightarrow> error + string option list list" where
  "renderContractsTable cleanedData = mapE contractCells cleanedData"

text \<open>Everything the dashboard computes from the raw rows.\<close>

record dashboardOutput =
  mapData :: "error + districtData"
  districtsTable :: "error + (string \<times> nat \<times> string) list"
  recipientsTable :: "error + (string \<times> nat \<times> string) list"
  contractsTable :: "error + string option list list"

definition dashboard :: "csvRow list \<Rightarrow> dashboardOutput" where
  "dashboard rawData =
     (let cleanedData = processData rawData
      in \<lparr>mapData = calculateDistrictData cleanedData,
          districtsTable = renderDistrictsTable cleanedData,
          recipientsTable = renderRecipientsTable cleanedData,
          contractsTable = renderContractsTable cleanedData\<rparr>)"

section \<open>The stepped colour scale (choropleth-map.js)\<close>

record colorStep =
  threshold :: jsnum
  color :: string
  label :: string

record colorConfig =
  zero_color :: "string option"
  high_color :: "string option"

definition spendingSteps :: "colorStep list" where
  "spendingSteps =
     [\<lparr>threshold = Fin 500000, color = ''#fdfde6'', label = ''< $500K''\<rparr>,
      \<lparr>threshold = Fin 5000000, color = ''#d6ebca'', label = ''$500K to $5M''\<rparr>,
      \<lparr>threshold = Fin 50000000, color = ''#7fcdbb'', label = ''$5M to $50M''\<rparr>,
      \<lparr>threshold = Fin 250000000, color = ''#41b6c4'', label = ''$50M to $250M''\<rparr>,
      \<lparr>threshold = Fin 1000000000, color = ''#2c7fb8'', label = ''$250M to $1B''\<rparr>,
      \<lparr>threshold = PosInf, color = ''#253494'', label = ''$1B+''\<rparr>]"

definition spendingColors :: colorConfig where
  "spendingColors = \<lparr>zero_color = Some ''#FFFFFF'', high_color = Some ''#037CC2''\<rparr>"

text \<open>\<open>a || d\<close> for a string property \<open>a\<close> that may be absent.\<close>

definition orDefault :: "string option \<Rightarrow> string \<Rightarrow> string" where
  "orDefault a d = (case a of None \<Rightarrow> d | Some s \<Rightarrow> if s = [] then d else s)"

fun steppedLoop :: "colorStep list \<Rightarrow> jsnum \<Rightarrow> string option" where
  "steppedLoop [] v = None"
| "steppedLoop (step # steps) v =
     (if jless v (threshold step) then Some (color step) else steppedLoop steps v)"

text \<open>
  \<open>getSteppedColor(value)\<close>, with \<open>this.colors\<close> and \<open>this.steppedScale\<close> as arguments.
  After the loop over an empty scale, \<open>this.steppedScale[-1].color\<close> throws.
\<close>

definition getSteppedColor :: "colorConfig \<Rightarrow> colorStep list option \<Rightarrow> jsnum \<Rightarrow> error + string" where
  "getSteppedColor colors steppedScale v =
     (if v = NaN \<or> v = Fin 0 \<or> jle v (Fin 0) then Inr (orDefault (zero_color colors) ''#f0f0f0'')
      else (case steppedScale of
              None \<Rightarrow> Inr (orDefault (high_color colors) ''#037CC2'')
            | Some steps \<Rightarrow>
                (case steppedLoop steps v of
                   Some c \<Rightarrow> Inr c
                 | None \<Rightarrow> if steps = [] then Inl TypeError else Inr (color (last steps)))))"

section \<open>The continuous colour scale (the Python report script)\<close>

text \<open>Python floats are binary64 values as well; \<open>count\<close> and \<open>max_count\<close> are integers.\<close>

definition jmul :: "jsnum \<Rightarrow> jsnum \<Rightarrow> jsnum" where
  "jmul a b = (case (a, b) of
      (Fin x, Fin y) \<Rightarrow> fl (x * y)
    | (NaN, _) \<Rightarrow> NaN | (_, NaN) \<Rightarrow> NaN
    | _ \<Rightarrow> if a = Fin 0 \<or> b = Fin 0 then NaN
           else if jless a (Fin 0) = jless b (Fin 0) then PosInf else NegInf)"

definition hexDigitVal :: "char \<Rightarrow> nat" where
  "hexDigitVal c =
     (case map_of (zip ''0123456789abcdefABCDEF''
                       [0, 1, 2, 3, 4, 5, 6, 7, 8, 9, 10, 11, 12, 13, 14, 15, 10, 11, 12, 13, 14, 15]) c of
        Some d \<Rightarrow> d | None \<Rightarrow> 0)"

definition hexVal :: "string \<Rightarrow> int" where
  "hexVal s = int (foldl (\<lambda>a c. 16 * a + hexDigitVal c) 0 s)"

definition hex_to_rgb :: "string \<Rightarrow> int \<times> int \<times> int" where
  "hex_to_rgb hex_color =
     (let h = dropWhile (\<lambda>c. c = CHR ''#'') hex_color
      in (hexVal (take 2 h), hexVal (take 2 (drop 2 h)), hexVal (take 2 (drop 4 h))))"

fun natToHex :: "nat \<Rightarrow> string" where
  "natToHex n = (if n < 16 then [digitChar n] else natToHex (n div 16) @ [digitChar (n mod 16)])"

declare natToHex.simps [simp del]

text \<open>The format \<open>{:02x}\<close> of an integer.\<close>

definition format_02x :: "int \<Rightarrow> string" where
  "format_02x i = (if i < 0 then CHR ''-'' # padStart 1 (CHR ''0'') (natToHex (nat (- i)))
                   else padStart 2 (CHR ''0'') (natToHex (nat i)))"

definition rgb_to_hex :: "int \<times> int \<times> int \<Rightarrow> string" where
  "rgb_to_hex rgb = (case rgb of (r, g, b) \<Rightarrow> ''#'' @ format_02x r @ format_02x g @ format_02x b)"

definition color_zero :: "int \<times> int \<times> int" where
  "color_zero = hex_to_rgb ''#FFFFFF''"

definition color_one :: "int \<times> int \<times> int" where
  "color_one = hex_to_rgb ''#d19690''"

definition color_max :: "int \<times> int \<times> int" where
  "color_max = hex_to_rgb ''#9c1a0e''"

text \<open>\<open>round(x)\<close> of a float: to the nearest integer, a tie to the even one.\<close>

definition py_round :: "jsnum \<Rightarrow> error + int" where
  "py_round x = (case x of Fin q \<Rightarrow> Inr (round_half_even q) | NaN \<Rightarrow> Inl ValueError | _ \<Rightarrow> Inl OverflowError)"

text \<open>\<open>c_one + (c_max - c_one) * t\<close>, in floats.\<close>

definition interpolate :: "int \<Rightarrow> int \<Rightarrow> rat \<Rightarrow> jsnum" where
  "interpolate c_one c_max t = jadd (Fin (of_int c_one)) (jmul (Fin (of_int (c_max - c_one))) (Fin t))"

text \<open>
  \<open>get_choropleth_color(count, max_count)\<close>, with \<open>cnt\<close> for \<open>count\<close>. The quotient of two integers is the float
  nearest to it, and an \<open>OverflowError\<close> when that is out of range.
\<close>

definition get_choropleth_color :: "int \<Rightarrow> int \<Rightarrow> error + string" where
  "get_choropleth_color cnt max_count =
     (if cnt \<le> 0 then Inr (rgb_to_hex color_zero)
      else if cnt = 1 then Inr (rgb_to_hex color_one)
      else if max_count \<le> 1 then Inr (rgb_to_hex color_one)
      else (case fl (of_int (cnt - 1) / of_int (max_count - 1)) of
              Fin q \<Rightarrow>
                (let t = max 0 (min 1 q)
                 in bindE (py_round (interpolate (fst color_one) (fst color_max) t))
                      (\<lambda>r. bindE (py_round (interpolate (fst (snd color_one)) (fst (snd color_max)) t))
                         (\<lambda>g. bindE (py_round (interpolate (snd (snd color_one)) (snd (snd color_max)) t))
                            (\<lambda>b. Inr (rgb_to_hex (r, g, b))))))
            | _ \<Rightarrow> Inl OverflowError))"

section \<open>Properties\<close>

subsection \<open>GEOID derivation\<close>

lemma geoid_CA_37: "getGeoidFromDistrict (Str ''CA-37'') = Some ''0637''"
  by code_simp

lemma geoid_CA_0: "getGeoidFromDistrict (Str ''CA-0'') = Some ''0600''"
  by code_simp

lemma geoid_lower_case_zz: "getGeoidFromDistrict (Str ''tx-zz'') = Some ''48ZZ''"
  by code_simp

lemma geoid_unknown_state: "getGeoidFromDistrict (Str ''ZZ-ZZ'') = None"
  by code_simp

lemma geoid_no_separator: "getGeoidFromDistrict (Str ''CA37'') = None"
  by code_simp

lemma geoid_two_separators: "getGeoidFromDistrict (Str ''CA-37-1'') = None"
  by code_simp

lemma geoid_trailing_letters: "getGeoidFromDistrict (Str ''CA-5x'') = Some ''0605''"
  by code_simp

text \<open>
  C1. A district part that is a number above 99 is not rejected: \<open>CA-100\<close> gives the
  five-character string \<open>06100\<close>, where the claim (and the function's own documentation,
  "4-digit GEOID or null if invalid") asks for \<open>null\<close>.
\<close>

theorem getGeoidFromDistrict_CA_100: "getGeoidFromDistrict (Str ''CA-100'') = Some ''06100''"
  by code_simp

subsection \<open>Currency formatting\<close>
















subsection \<open>The stepped colour scale\<close>

lemma jle_jless_trans: "jle a b \<Longrightarrow> jless b c \<Longrightarrow> jless a c"
  by (cases a; cases b; cases c) (auto simp: jle_def jless_def)

lemma jless_jle_trans: "jless a b \<Longrightarrow> jle b c \<Longrightarrow> jless a c"
  by (cases a; cases b; cases c) (auto simp: jle_def jless_def)

lemma steppedLoop_Some:
  "steppedLoop steps v = Some c \<Longrightarrow>
     \<exists>i<length steps. jless v (threshold (steps ! i))
        \<and> (\<forall>j<i. \<not> jless v (threshold (steps ! j))) \<and> c = color (steps ! i)"
proof (induction steps)
  case Nil
  then show ?case by simp
next
  case (Cons s steps)
  show ?case
  proof (cases "jless v (threshold s)")
    case True
    with Cons.prems show ?thesis by (intro exI [of _ 0]) simp
  next
    case False
    with Cons obtain i where i: "i < length steps" "jless v (threshold (steps ! i))"
      "\<forall>j<i. \<not> jless v (threshold (steps ! j))" "c = color (steps ! i)" by auto
    show ?thesis
    proof (intro exI [of _ "Suc i"] conjI allI impI)
      fix j assume "j < Suc i"
      then show "\<not> jless v (threshold ((s # steps) ! j))" using False i(3) by (cases j) auto
    qed (use i in auto)
  qed
qed

lemma steppedLoop_None:
  "steppedLoop steps v = None \<Longrightarrow> i < length steps \<Longrightarrow> \<not> jless v (threshold (steps ! i))"
proof (induction steps arbitrary: i)
  case Nil
  then show ?case by simp
next
  case (Cons s steps)
  then show ?case by (cases i) (auto split: if_splits)
qed

lemma steppedLoop_first:
  "i < length steps \<Longrightarrow> jless v (threshold (steps ! i)) \<Longrightarrow>
   \<forall>j<i. \<not> jless v (threshold (steps ! j)) \<Longrightarrow> steppedLoop steps v = Some (color (steps ! i))"
proof (induction steps arbitrary: i)
  case Nil
  then show ?case by simp
next
  case (Cons s steps)
  show ?case
  proof (cases i)
    case 0
    with Cons.prems show ?thesis by simp
  next
    case (Suc k)
    with Cons.prems have "\<not> jless v (threshold s)" by auto
    moreover have "steppedLoop steps v = Some (color (steps ! k))"
      using Cons.prems Suc by (intro Cons.IH) auto
    ultimately show ?thesis using Suc by simp
  qed
qed

lemma getSteppedColor_index:
  assumes "steps \<noteq> []" "jless (Fin 0) v"
  shows "\<exists>i<length steps. getSteppedColor colors (Some steps) v = Inr (color (steps ! i))
           \<and> ((\<exists>k<length steps. jless v (threshold (steps ! k))) \<longrightarrow>
                  jless v (threshold (steps ! i)) \<and> (\<forall>j<i. \<not> jless v (threshold (steps ! j))))
           \<and> ((\<forall>k<length steps. \<not> jless v (threshold (steps ! k))) \<longrightarrow> i = length steps - 1)"
proof -
  from assms(2) have pos: "v \<noteq> NaN" "v \<noteq> Fin 0" "\<not> jle v (Fin 0)"
    by (cases v; simp add: jless_def jle_def)+
  show ?thesis
  proof (cases "steppedLoop steps v")
    case None
    then have "getSteppedColor colors (Some steps) v = Inr (color (steps ! (length steps - 1)))"
      using pos assms(1) by (simp add: getSteppedColor_def last_conv_nth)
    moreover have "\<forall>j<length steps. \<not> jless v (threshold (steps ! j))"
      using steppedLoop_None [OF None] by blast
    ultimately show ?thesis using assms(1) by (intro exI [of _ "length steps - 1"]) simp
  next
    case (Some c)
    from steppedLoop_Some [OF Some] obtain i where i: "i < length steps"
      "jless v (threshold (steps ! i))"
      "\<forall>j<i. \<not> jless v (threshold (steps ! j))" "c = color (steps ! i)" by blast
    have "getSteppedColor colors (Some steps) v = Inr (color (steps ! i))"
      using pos Some i(4) by (simp add: getSteppedColor_def)
    then show ?thesis using i by blast
  qed
qed

text \<open>
  C6. The stepped scale, for a scale that is not empty and whose last threshold is
  positive infinity (as the configured, ascending scales are): a value that is zero or
  negative gets the configured zero colour; a positive value gets the colour of the first
  entry whose threshold strictly exceeds it, and every finite value has such an entry;
  and for positive \<open>v1 \<le> v2\<close> the colour of \<open>v1\<close> is that of an entry that comes no later
  than the entry that gives the colour of \<open>v2\<close>.
\<close>

theorem getSteppedColor_stepped:
  assumes "steps \<noteq> []" and "threshold (last steps) = PosInf"
  shows "(jle v (Fin 0) \<longrightarrow>
            getSteppedColor colors (Some steps) v = Inr (orDefault (zero_color colors) ''#f0f0f0''))
       \<and> (\<forall>i. jless (Fin 0) v \<and> i < length steps \<and> jless v (threshold (steps ! i))
               \<and> (\<forall>j<i. \<not> jless v (threshold (steps ! j))) \<longrightarrow>
             getSteppedColor colors (Some steps) v = Inr (color (steps ! i)))
       \<and> (\<forall>q. v = Fin q \<longrightarrow> (\<exists>i<length steps. jless v (threshold (steps ! i))))
       \<and> (\<forall>v1 v2. jless (Fin 0) v1 \<and> jle v1 v2 \<longrightarrow>
             (\<exists>i j. i \<le> j \<and> j < length steps
                \<and> getSteppedColor colors (Some steps) v1 = Inr (color (steps ! i))
                \<and> getSteppedColor colors (Some steps) v2 = Inr (color (steps ! j))))"
proof (intro conjI allI impI)
  assume "jle v (Fin 0)"
  then show "getSteppedColor colors (Some steps) v = Inr (orDefault (zero_color colors) ''#f0f0f0'')"
    by (auto simp: getSteppedColor_def)
next
  fix i
  assume a: "jless (Fin 0) v \<and> i < length steps \<and> jless v (threshold (steps ! i))
               \<and> (\<forall>j<i. \<not> jless v (threshold (steps ! j)))"
  then have pos: "v \<noteq> NaN" "v \<noteq> Fin 0" "\<not> jle v (Fin 0)"
    by (cases v; simp add: jless_def jle_def)+
  from a have "steppedLoop steps v = Some (color (steps ! i))" by (intro steppedLoop_first) auto
  then show "getSteppedColor colors (Some steps) v = Inr (color (steps ! i))"
    using pos by (simp add: getSteppedColor_def)
next
  fix q assume "v = Fin q"
  then have "jless v (threshold (steps ! (length steps - 1)))"
    using assms by (simp add: last_conv_nth jless_def)
  then show "\<exists>i<length steps. jless v (threshold (steps ! i))"
    using assms(1) by (intro exI [of _ "length steps - 1"]) simp
next
  fix v1 v2
  assume a: "jless (Fin 0) v1 \<and> jle v1 v2"
  then have p2: "jless (Fin 0) v2" using jless_jle_trans by blast
  from a have p1: "jless (Fin 0) v1" by simp
  from getSteppedColor_index [OF assms(1) p1, of colors] obtain i where i: "i < length steps"
    "getSteppedColor colors (Some steps) v1 = Inr (color (steps ! i))"
    "(\<exists>k<length steps. jless v1 (threshold (steps ! k))) \<longrightarrow>
        jless v1 (threshold (steps ! i)) \<and> (\<forall>j<i. \<not> jless v1 (threshold (steps ! j)))"
    by blast
  from getSteppedColor_index [OF assms(1) p2, of colors] obtain j where j: "j < length steps"
    "getSteppedColor colors (Some steps) v2 = Inr (color (steps ! j))"
    "(\<exists>k<length steps. jless v2 (threshold (steps ! k))) \<longrightarrow> jless v2 (threshold (steps ! j))"
    "(\<forall>k<length steps. \<not> jless v2 (threshold (steps ! k))) \<longrightarrow> j = length steps - 1"
    by blast
  have "i \<le> j"
  proof (cases "\<exists>k<length steps. jless v2 (threshold (steps ! k))")
    case True
    with j(3) have "jless v2 (threshold (steps ! j))" by blast
    with a have lt: "jless v1 (threshold (steps ! j))" using jle_jless_trans by blast
    with j(1) i(3) have "\<forall>k<i. \<not> jless v1 (threshold (steps ! k))" by blast
    with lt show ?thesis by (meson not_le)
  next
    case False
    with j(4) have "j = length steps - 1" by blast
    with i(1) show ?thesis by simp
  qed
  with i(2) j(1,2) show "\<exists>i j. i \<le> j \<and> j < length steps
                \<and> getSteppedColor colors (Some steps) v1 = Inr (color (steps ! i))
                \<and> getSteppedColor colors (Some steps) v2 = Inr (color (steps ! j))"
    by blast
qed

lemma spendingSteps_last: "spendingSteps \<noteq> [] \<and> threshold (last spendingSteps) = PosInf"
  by (simp add: spendingSteps_def)

theorem getSteppedColor_stepped_witness:
  "spendingSteps \<noteq> [] \<and> threshold (last spendingSteps) = PosInf
   \<and> getSteppedColor spendingColors (Some spendingSteps) (Fin (- 3)) = Inr ''#FFFFFF''
   \<and> getSteppedColor spendingColors (Some spendingSteps) (Fin 600000) = Inr ''#d6ebca''
   \<and> (\<exists>i<length spendingSteps. jless (Fin 600000) (threshold (spendingSteps ! i)))
   \<and> (\<exists>i j. i \<le> j \<and> j < length spendingSteps
          \<and> getSteppedColor spendingColors (Some spendingSteps) (Fin 600000) = Inr (color (spendingSteps ! i))
          \<and> getSteppedColor spendingColors (Some spendingSteps) (Fin 70000000) = Inr (color (spendingSteps ! j)))"
proof -
  note t = getSteppedColor_stepped [OF spendingSteps_last [THEN conjunct1] spendingSteps_last [THEN conjunct2]]
  have z: "jle (Fin (- 3)) (Fin 0)" by (simp add: jle_def jless_def)
  have zc: "orDefault (zero_color spendingColors) ''#f0f0f0'' = ''#FFFFFF''"
    by (simp add: orDefault_def spendingColors_def)
  have f: "jless (Fin 0) (Fin 600000) \<and> 1 < length spendingSteps
      \<and> jless (Fin 600000) (threshold (spendingSteps ! 1))
      \<and> (\<forall>j<1. \<not> jless (Fin 600000) (threshold (spendingSteps ! j)))"
    by (simp add: spendingSteps_def jless_def)
  have c1: "color (spendingSteps ! 1) = ''#d6ebca''" by (simp add: spendingSteps_def)
  have m: "jless (Fin 0) (Fin 600000) \<and> jle (Fin 600000) (Fin 70000000)"
    by (simp add: jle_def jless_def)
  from t [of "Fin (- 3)" spendingColors] z zc
  have r1: "getSteppedColor spendingColors (Some spendingSteps) (Fin (- 3)) = Inr ''#FFFFFF''" by simp
  from t [of "Fin 600000" spendingColors] f c1
  have r2: "getSteppedColor spendingColors (Some spendingSteps) (Fin 600000) = Inr ''#d6ebca''"
    by metis
  from t [of "Fin 600000" spendingColors]
  have r3: "\<exists>i<length spendingSteps. jless (Fin 600000) (threshold (spendingSteps ! i))" by blast
  from t [of "Fin 600000" spendingColors] m
  have r4: "\<exists>i j. i \<le> j \<and> j < length spendingSteps
          \<and> getSteppedColor spendingColors (Some spendingSteps) (Fin 600000) = Inr (color (spendingSteps ! i))
          \<and> getSteppedColor spendingColors (Some spendingSteps) (Fin 70000000) = Inr (color (spendingSteps ! j))"
    by blast
  show ?thesis using spendingSteps_last r1 r2 r3 r4 by blast
qed

end
